theory Spec2Isabelle
  imports Complex_Main "HOL-Library.Sublist"
begin

section \<open>Values, dictionaries and exceptions\<close>

text \<open>
  The program is \<^verbatim>\<open>src/main.py\<close>, a personal expense ledger. Its floats are the values
  of a type \<open>'f\<close> of which the definitions use only \<open>0\<close>, \<open>+\<close>, \<open>-\<close>, the absolute value
  and the comparisons, and of which they assume no law: an addition may round or
  overflow, as an addition of doubles does. Its strings are of type \<^typ>\<open>string\<close>.
  What \<^verbatim>\<open>json.load\<close> returns is a value of the datatype below, where a number holds
  the float that \<^verbatim>\<open>float\<close> makes of it; a Python dictionary is an association list in
  insertion order, holding each key once.
\<close>

datatype 'f json =
    JNull
  | JBool bool
  | JNum 'f
  | JStr string
  | JArr "'f json list"
  | JObj "(string \<times> 'f json) list"

datatype error =
    FileNotFoundError
  | JSONDecodeError
  | KeyError string
  | TypeError
  | AttributeError

text \<open>\<^verbatim>\<open>d.get(k, default)\<close> and \<^verbatim>\<open>d[k] = v\<close> on a dictionary: a key already present keeps
  its position, a new key goes to the end.\<close>

definition dict_get :: "('k \<times> 'v) list \<Rightarrow> 'k \<Rightarrow> 'v \<Rightarrow> 'v" where
  "dict_get d k dflt = (case map_of d k of None \<Rightarrow> dflt | Some v \<Rightarrow> v)"

fun dict_set :: "('k \<times> 'v) list \<Rightarrow> 'k \<Rightarrow> 'v \<Rightarrow> ('k \<times> 'v) list" where
  "dict_set [] k v = [(k, v)]"
| "dict_set ((k', v') # d) k v =
     (if k' = k then (k, v) # d else (k', v') # dict_set d k v)"

text \<open>\<^verbatim>\<open>data[key]\<close>: KeyError on a dictionary without the key, TypeError on a value that
  is no dictionary.\<close>

fun subscript :: "'f json \<Rightarrow> string \<Rightarrow> error + 'f json" where
  "subscript (JObj d) k = (case map_of d k of None \<Rightarrow> Inl (KeyError k) | Some v \<Rightarrow> Inr v)"
| "subscript _ k = Inl TypeError"

text \<open>\<^verbatim>\<open>item.get(key)\<close>: only a dictionary has the method; a missing key gives Python's
  None, here \<^term>\<open>JNull\<close>.\<close>

fun py_get :: "'f json \<Rightarrow> string \<Rightarrow> error + 'f json" where
  "py_get (JObj d) k = Inr (dict_get d k JNull)"
| "py_get _ k = Inl AttributeError"

text \<open>\<^verbatim>\<open>for item in data\<close>: a list gives its elements, a dictionary its keys, a string its
  characters; nothing else is iterable.\<close>

fun py_iter :: "'f json \<Rightarrow> error + 'f json list" where
  "py_iter (JArr xs) = Inr xs"
| "py_iter (JObj d) = Inr (map (\<lambda>kv. JStr (fst kv)) d)"
| "py_iter (JStr s) = Inr (map (\<lambda>c. JStr [c]) s)"
| "py_iter _ = Inl TypeError"

text \<open>
  The entities are typed as the data model types them: a number for amount and budget
  limit, strings for the other fields. A stored field that holds a value of another kind
  is a TypeError in the model. (Python itself is more liberal: \<^verbatim>\<open>float\<close> also accepts
  booleans and numeric strings, and the other fields are stored whatever they hold; such
  entities are outside the typed model.)
\<close>

fun as_float :: "'f json \<Rightarrow> error + 'f" where
  "as_float (JNum r) = Inr r"
| "as_float _ = Inl TypeError"

fun as_str :: "'f json \<Rightarrow> error + string" where
  "as_str (JStr s) = Inr s"
| "as_str _ = Inl TypeError"

fun as_date :: "'f json \<Rightarrow> error + string option" where
  "as_date JNull = Inr None"
| "as_date (JStr s) = Inr (Some s)"
| "as_date _ = Inl TypeError"

text \<open>Sequencing of steps that may raise: the first exception ends the computation.\<close>

definition then_do :: "error + 'a \<Rightarrow> ('a \<Rightarrow> error + 'b) \<Rightarrow> error + 'b" where
  "then_do r f = (case r of Inl e \<Rightarrow> Inl e | Inr x \<Rightarrow> f x)"


section \<open>Record model\<close>

text \<open>
  \<^verbatim>\<open>Expense\<close> and its subclass \<^verbatim>\<open>RecurringExpense\<close> are one record; the field
  \<open>variant\<close> says which class the object has and holds the frequency of a recurring one.
  The other fields are named after their getters. The parameter \<open>today\<close> is
  \<^verbatim>\<open>datetime.now().strftime("%Y-%m-%d")\<close> at the moment of the call.
\<close>

datatype variant = Regular | Recurring string

record 'f expense =
  get_amount :: 'f
  get_category :: string
  get_description :: string
  get_date :: string
  variant :: variant

text \<open>\<^verbatim>\<open>Expense.__init__\<close>: \<^verbatim>\<open>date if date else today\<close>, so that None and the empty
  string both give today's date.\<close>

definition Expense_init ::
  "string \<Rightarrow> 'f \<Rightarrow> string \<Rightarrow> string \<Rightarrow> string option \<Rightarrow> 'f expense" where
  "Expense_init today amount category description date =
     \<lparr> get_amount = amount,
       get_category = category,
       get_description = description,
       get_date = (case date of None \<Rightarrow> today | Some d \<Rightarrow> if d = [] then today else d),
       variant = Regular \<rparr>"

definition set_date :: "'f expense \<Rightarrow> string \<Rightarrow> 'f expense" where
  "set_date e d = e\<lparr> get_date := d \<rparr>"

text \<open>\<^verbatim>\<open>RecurringExpense.__init__\<close>: the base constructor, then
  \<^verbatim>\<open>self._frequency = frequency\<close>.\<close>

definition RecurringExpense_init ::
  "string \<Rightarrow> 'f \<Rightarrow> string \<Rightarrow> string \<Rightarrow> string option \<Rightarrow> string \<Rightarrow> 'f expense" where
  "RecurringExpense_init today amount category description date frequency =
     (Expense_init today amount category description date)\<lparr> variant := Recurring frequency \<rparr>"

text \<open>The check of \<^verbatim>\<open>add_recurring_expense_ui\<close> on the stripped, lower-cased input, before
  it calls the constructor.\<close>

definition ui_frequency :: "string \<Rightarrow> string" where
  "ui_frequency frequency =
     (if frequency \<in> set [''daily'', ''weekly'', ''monthly'', ''yearly'']
      then frequency else ''monthly'')"

definition Expense_to_dict :: "'f expense \<Rightarrow> (string \<times> 'f json) list" where
  "Expense_to_dict e =
     [(''amount'', JNum (get_amount e)),
      (''category'', JStr (get_category e)),
      (''description'', JStr (get_description e)),
      (''date'', JStr (get_date e)),
      (''type'', JStr ''regular'')]"

definition RecurringExpense_to_dict :: "'f expense \<Rightarrow> string \<Rightarrow> (string \<times> 'f json) list" where
  "RecurringExpense_to_dict e frequency =
     (let data = Expense_to_dict e;
          data = dict_set data ''frequency'' (JStr frequency);
          data = dict_set data ''type'' (JStr ''recurring'')
      in data)"

text \<open>\<^verbatim>\<open>exp.to_dict()\<close>: the method of the object's class.\<close>

definition to_dict :: "'f expense \<Rightarrow> (string \<times> 'f json) list" where
  "to_dict e =
     (case variant e of
        Regular \<Rightarrow> Expense_to_dict e
      | Recurring frequency \<Rightarrow> RecurringExpense_to_dict e frequency)"

definition Expense_from_dict :: "string \<Rightarrow> 'f json \<Rightarrow> error + 'f expense" where
  "Expense_from_dict today data =
     then_do (subscript data ''amount'') (\<lambda>amount.
     then_do (subscript data ''category'') (\<lambda>category.
     then_do (subscript data ''description'') (\<lambda>description.
     then_do (subscript data ''date'') (\<lambda>date.
     then_do (as_float amount) (\<lambda>amount.
     then_do (as_str category) (\<lambda>category.
     then_do (as_str description) (\<lambda>description.
     then_do (as_date date) (\<lambda>date.
       Inr (Expense_init today amount category description date)))))))))"

definition RecurringExpense_from_dict :: "string \<Rightarrow> 'f json \<Rightarrow> error + 'f expense" where
  "RecurringExpense_from_dict today data =
     then_do (subscript data ''amount'') (\<lambda>amount.
     then_do (subscript data ''category'') (\<lambda>category.
     then_do (subscript data ''description'') (\<lambda>description.
     then_do (subscript data ''date'') (\<lambda>date.
     then_do (case data of JObj d \<Rightarrow> Inr (dict_get d ''frequency'' (JStr ''monthly''))
                         | _ \<Rightarrow> Inl AttributeError) (\<lambda>frequency.
     then_do (as_float amount) (\<lambda>amount.
     then_do (as_str category) (\<lambda>category.
     then_do (as_str description) (\<lambda>description.
     then_do (as_date date) (\<lambda>date.
     then_do (as_str frequency) (\<lambda>frequency.
       Inr (RecurringExpense_init today amount category description date frequency)))))))))))"

text \<open>The body of the loop of \<^verbatim>\<open>_load_expenses\<close>: the class is chosen by the stored
  \<^verbatim>\<open>type\<close>.\<close>

definition load_item :: "string \<Rightarrow> 'f json \<Rightarrow> error + 'f expense" where
  "load_item today item =
     then_do (py_get item ''type'') (\<lambda>t.
       if t = JStr ''recurring'' then RecurringExpense_from_dict today item
       else Expense_from_dict today item)"

record 'f category =
  get_name :: string
  get_budget_limit :: 'f

definition Category_init :: "string \<Rightarrow> 'f \<Rightarrow> 'f category" where
  "Category_init name budget_limit = \<lparr> get_name = name, get_budget_limit = budget_limit \<rparr>"

definition Category_to_dict :: "'f category \<Rightarrow> (string \<times> 'f json) list" where
  "Category_to_dict c =
     [(''name'', JStr (get_name c)), (''budget_limit'', JNum (get_budget_limit c))]"

definition Category_from_dict :: "'f json \<Rightarrow> error + 'f category" where
  "Category_from_dict data =
     then_do (subscript data ''name'') (\<lambda>name.
     then_do (subscript data ''budget_limit'') (\<lambda>budget_limit.
     then_do (as_str name) (\<lambda>name.
     then_do (as_float budget_limit) (\<lambda>budget_limit.
       Inr (Category_init name budget_limit)))))"

section \<open>Reports\<close>









section \<open>The expense manager\<close>

text \<open>
  A file holds either text that \<^verbatim>\<open>json.load\<close> rejects or the text of a JSON value;
  \<^verbatim>\<open>json.dump\<close> writes a value that \<^verbatim>\<open>json.load\<close> reads back.
\<close>

datatype 'f file_content = Unparseable | Document "'f json"

text \<open>
  The two save methods write inside a \<^verbatim>\<open>try\<close>. Whether such a write goes through is
  for the environment to say, so each save takes the outcome as a parameter:
  \<^item> \<open>Written\<close>: the file is opened and the whole text is written;
  \<^item> \<open>OpenFailed\<close>: \<^verbatim>\<open>open\<close> raises (no permission, no such directory), and the file is as
    it was;
  \<^item> \<open>DumpFailed\<close>: the file is opened, which empties it, and the writing raises before
    the text is complete (a full disk); what the file then holds is a proper beginning
    of the text, which \<^verbatim>\<open>json.load\<close> rejects.
  In the two cases of failure the \<^verbatim>\<open>except\<close> branch prints the error and the method
  returns. The writes of \<^verbatim>\<open>_initialize_files\<close> and of the reset in \<^verbatim>\<open>_load_expenses\<close>
  have no handler of their own; the model of the constructor is of the runs in which
  they go through.
\<close>

datatype write_outcome = Written | OpenFailed | DumpFailed

text \<open>What the manager prints. The texts are in the source; a message keeps the values
  the text is built from.\<close>

datatype 'f message =
    CreatedExpensesFile string
  | CreatedCategoriesFile string
  | LoadedExpenses nat string
  | ErrorLoadingExpenses
  | LoadedCategories nat string
  | ErrorLoadingCategories
  | SavedExpenses nat string
  | ErrorSavingExpenses
  | SavedCategories nat string
  | ErrorSavingCategories
  | ExpenseAdded
  | ExpenseDeleted "'f expense"
  | InvalidExpenseIndex
  | CategoryExists string
  | CategoryAdded string

text \<open>The manager's four attributes, with the file system it works on and the console it
  prints to.\<close>

record 'f manager =
  data_file :: string
  categories_file :: string
  expenses :: "'f expense list"
  categories :: "'f category list"
  files :: "string \<rightharpoonup> 'f file_content"
  console :: "'f message list"

text \<open>The default categories of \<^verbatim>\<open>_initialize_files\<close>. Their limits are written as
  Python integers; \<open>py_float\<close> is \<^verbatim>\<open>float\<close> on the integers, which the constructor of
  \<^verbatim>\<open>Category\<close> applies to a limit when the file is loaded.\<close>

definition default_categories :: "(int \<Rightarrow> 'f) \<Rightarrow> 'f json" where
  "default_categories py_float = JArr
     [JObj [(''name'', JStr ''Food''), (''budget_limit'', JNum (py_float 5000))],
      JObj [(''name'', JStr ''Travel''), (''budget_limit'', JNum (py_float 3000))],
      JObj [(''name'', JStr ''Entertainment''), (''budget_limit'', JNum (py_float 2000))],
      JObj [(''name'', JStr ''Shopping''), (''budget_limit'', JNum (py_float 4000))],
      JObj [(''name'', JStr ''Bills''), (''budget_limit'', JNum (py_float 6000))],
      JObj [(''name'', JStr ''Healthcare''), (''budget_limit'', JNum (py_float 1500))],
      JObj [(''name'', JStr ''Education''), (''budget_limit'', JNum (py_float 3000))],
      JObj [(''name'', JStr ''Other''), (''budget_limit'', JNum (py_float 1000))]]"

definition initialize_files :: "(int \<Rightarrow> 'f) \<Rightarrow> 'f manager \<Rightarrow> 'f manager" where
  "initialize_files py_float s =
     (let s1 = (if files s (data_file s) = None
                then s\<lparr> files := (files s)(data_file s \<mapsto> Document (JArr [])),
                        console := console s @ [CreatedExpensesFile (data_file s)] \<rparr>
                else s)
      in if files s1 (categories_file s1) = None
         then s1\<lparr> files := (files s1)(categories_file s1 \<mapsto>
                              Document (default_categories py_float)),
                  console := console s1 @ [CreatedCategoriesFile (categories_file s1)] \<rparr>
         else s1)"

text \<open>\<^verbatim>\<open>json.load\<close> of an open file: a missing file cannot be opened, unparseable text
  raises.\<close>

definition json_load :: "(string \<rightharpoonup> 'f file_content) \<Rightarrow> string \<Rightarrow> error + 'f json" where
  "json_load fs path =
     (case fs path of
        None \<Rightarrow> Inl FileNotFoundError
      | Some Unparseable \<Rightarrow> Inl JSONDecodeError
      | Some (Document v) \<Rightarrow> Inr v)"

text \<open>A loop that builds a list from the items, ended by the first item that raises.\<close>

fun load_all :: "('f json \<Rightarrow> error + 'a) \<Rightarrow> 'f json list \<Rightarrow> error + 'a list" where
  "load_all f [] = Inr []"
| "load_all f (item # items) =
     then_do (f item) (\<lambda>x. then_do (load_all f items) (\<lambda>xs. Inr (x # xs)))"

definition load_expenses :: "string \<Rightarrow> 'f manager \<Rightarrow> 'f manager" where
  "load_expenses today s =
     (case then_do (json_load (files s) (data_file s)) (\<lambda>data.
           then_do (py_iter data) (load_all (load_item today))) of
        Inr es \<Rightarrow>
          s\<lparr> expenses := es,
             console := console s @ [LoadedExpenses (length es) (data_file s)] \<rparr>
      | Inl e \<Rightarrow>
          s\<lparr> expenses := [],
             files := (files s)(data_file s \<mapsto> Document (JArr [])),
             console := console s @ [ErrorLoadingExpenses] \<rparr>)"

definition load_categories :: "'f manager \<Rightarrow> 'f manager" where
  "load_categories s =
     (case then_do (json_load (files s) (categories_file s)) (\<lambda>data.
           then_do (py_iter data) (load_all Category_from_dict)) of
        Inr cs \<Rightarrow>
          s\<lparr> categories := cs,
             console := console s @ [LoadedCategories (length cs) (categories_file s)] \<rparr>
      | Inl e \<Rightarrow>
          s\<lparr> categories := [],
             console := console s @ [ErrorLoadingCategories] \<rparr>)"

definition load_data :: "string \<Rightarrow> 'f manager \<Rightarrow> 'f manager" where
  "load_data today s = load_categories (load_expenses today s)"

text \<open>\<^verbatim>\<open>ExpenseManager.__init__\<close>, on the file system \<open>fs\<close> and an empty console.\<close>

definition ExpenseManager_init ::
  "(int \<Rightarrow> 'f) \<Rightarrow> string \<Rightarrow> string \<Rightarrow> string \<Rightarrow> (string \<rightharpoonup> 'f file_content) \<Rightarrow> 'f manager" where
  "ExpenseManager_init py_float today data_file' categories_file' fs =
     load_data today (initialize_files py_float
       \<lparr> data_file = data_file', categories_file = categories_file',
         expenses = [], categories = [], files = fs, console = [] \<rparr>)"

text \<open>\<^verbatim>\<open>_save_expenses\<close> and \<^verbatim>\<open>_save_categories\<close>, with the outcome of the write. The
  message of success is printed after the file is closed, inside the \<^verbatim>\<open>try\<close>.\<close>

definition save_expenses :: "write_outcome \<Rightarrow> 'f manager \<Rightarrow> 'f manager" where
  "save_expenses w s =
     (case w of
        Written \<Rightarrow>
          s\<lparr> files := (files s)(data_file s \<mapsto>
                         Document (JArr (map (\<lambda>e. JObj (to_dict e)) (expenses s)))),
             console := console s @ [SavedExpenses (length (expenses s)) (data_file s)] \<rparr>
      | OpenFailed \<Rightarrow>
          s\<lparr> console := console s @ [ErrorSavingExpenses] \<rparr>
      | DumpFailed \<Rightarrow>
          s\<lparr> files := (files s)(data_file s \<mapsto> Unparseable),
             console := console s @ [ErrorSavingExpenses] \<rparr>)"

definition save_categories :: "write_outcome \<Rightarrow> 'f manager \<Rightarrow> 'f manager" where
  "save_categories w s =
     (case w of
        Written \<Rightarrow>
          s\<lparr> files := (files s)(categories_file s \<mapsto>
                         Document (JArr (map (\<lambda>cat. JObj (Category_to_dict cat)) (categories s)))),
             console := console s @ [SavedCategories (length (categories s)) (categories_file s)] \<rparr>
      | OpenFailed \<Rightarrow>
          s\<lparr> console := console s @ [ErrorSavingCategories] \<rparr>
      | DumpFailed \<Rightarrow>
          s\<lparr> files := (files s)(categories_file s \<mapsto> Unparseable),
             console := console s @ [ErrorSavingCategories] \<rparr>)"

definition add_expense :: "write_outcome \<Rightarrow> 'f expense \<Rightarrow> 'f manager \<Rightarrow> 'f manager" where
  "add_expense w expense s =
     (let s1 = save_expenses w (s\<lparr> expenses := expenses s @ [expense] \<rparr>)
      in s1\<lparr> console := console s1 @ [ExpenseAdded] \<rparr>)"

text \<open>
  \<^verbatim>\<open>delete_expense\<close> has no \<^verbatim>\<open>return\<close> statement: on both branches the caller gets
  Python's None. The first component of the result is the value returned (\<open>None\<close> for
  Python's None, \<open>Some e\<close> for an entity), the second the manager afterwards. Under the
  guard the index is in range, where \<^verbatim>\<open>pop(index)\<close> takes the element at that position
  out of the list. The parameter \<open>w\<close> is the outcome of the write of \<^verbatim>\<open>_save_expenses\<close>.
\<close>

definition delete_expense ::
  "write_outcome \<Rightarrow> int \<Rightarrow> 'f manager \<Rightarrow> 'f expense option \<times> 'f manager" where
  "delete_expense w index s =
     (if 0 \<le> index \<and> index < int (length (expenses s)) then
        (let deleted = expenses s ! nat index;
             s1 = s\<lparr> expenses := take (nat index) (expenses s) @ drop (Suc (nat index)) (expenses s) \<rparr>;
             s2 = save_expenses w s1
         in (None, s2\<lparr> console := console s2 @ [ExpenseDeleted deleted] \<rparr>))
      else (None, s\<lparr> console := console s @ [InvalidExpenseIndex] \<rparr>))"



text \<open>
  \<^verbatim>\<open>add_category\<close>: the loop returns at the first stored category whose lower-cased name
  is the lower-cased new name. The parameter \<open>lower\<close> is \<^verbatim>\<open>str.lower\<close>, a function on
  strings of which nothing is assumed; \<open>w\<close> is the outcome of the write of
  \<^verbatim>\<open>_save_categories\<close>.
\<close>

definition add_category ::
  "(string \<Rightarrow> string) \<Rightarrow> write_outcome \<Rightarrow> string \<Rightarrow> 'f \<Rightarrow> 'f manager \<Rightarrow> 'f manager" where
  "add_category lower w name budget_limit s =
     (if list_ex (\<lambda>cat. lower (get_name cat) = lower name) (categories s)
      then s\<lparr> console := console s @ [CategoryExists name] \<rparr>
      else
        (let new_category = Category_init name budget_limit;
             s1 = save_categories w (s\<lparr> categories := categories s @ [new_category] \<rparr>)
         in s1\<lparr> console := console s1 @ [CategoryAdded name] \<rparr>))"

section \<open>Notions of the specification\<close>



section \<open>Properties\<close>

subsection \<open>Construction of a recurring expense\<close>

text \<open>
  Claim C1 says that \<^verbatim>\<open>RecurringExpense\<close>, constructed with a frequency outside daily,
  weekly, monthly and yearly, has the frequency monthly. The constructor stores the
  frequency it is given: the scenario of the specification, the frequency "biweekly",
  gives an entity whose frequency is "biweekly".
\<close>

theorem RecurringExpense_biweekly_not_normalized:
  "variant (RecurringExpense_init ''2024-06-01'' (99::real) ''Bills'' '''' None ''biweekly'')
     = Recurring ''biweekly''
   \<and> variant (RecurringExpense_init ''2024-06-01'' (99::real) ''Bills'' '''' None ''biweekly'')
     \<noteq> Recurring ''monthly''"
  by (simp add: RecurringExpense_init_def Expense_init_def)

text \<open>
  Claim C1, amended: a \<^verbatim>\<open>RecurringExpense\<close> constructed with a frequency outside the four
  values keeps that frequency unchanged; the value monthly is put in its place by the
  check of \<^verbatim>\<open>add_recurring_expense_ui\<close>, before the constructor is called.
\<close>

theorem RecurringExpense_keeps_frequency:
  assumes "frequency \<notin> set [''daily'', ''weekly'', ''monthly'', ''yearly'']"
  shows "variant (RecurringExpense_init today amount category description date frequency)
           = Recurring frequency
       \<and> variant (RecurringExpense_init today amount category description date
                    (ui_frequency frequency)) = Recurring ''monthly''"
  using assms by (simp add: RecurringExpense_init_def Expense_init_def ui_frequency_def)

theorem RecurringExpense_keeps_frequency_witness:
  "''biweekly'' \<notin> set [''daily'', ''weekly'', ''monthly'', ''yearly'']
   \<and> variant (RecurringExpense_init ''2024-06-01'' (99::real) ''Bills'' '''' None ''biweekly'')
       = Recurring ''biweekly''
   \<and> variant (RecurringExpense_init ''2024-06-01'' (99::real) ''Bills'' '''' None
                (ui_frequency ''biweekly'')) = Recurring ''monthly''"
proof -
  have h: "''biweekly'' \<notin> set [''daily'', ''weekly'', ''monthly'', ''yearly'']"
    by simp
  show ?thesis
    using h RecurringExpense_keeps_frequency
      [OF h, where today = "''2024-06-01''" and amount = "99::real" and category = "''Bills''"
         and description = "''''" and date = None]
    by blast
qed

subsection \<open>Deleting an expense\<close>

text \<open>
  Claim C2 says that \<^verbatim>\<open>delete_expense\<close> at a valid index returns the removed entity to the
  caller. The method returns nothing: on a ledger of one expense, deleting at index 0
  gives the caller Python's None, not the expense, whether or not the write goes
  through.
\<close>

theorem delete_expense_returns_None:
  "fst (delete_expense Written 0
        \<lparr> data_file = ''expenses.json'', categories_file = ''categories.json'',
          expenses = [Expense_init ''2024-05-10'' (250::real) ''Food'' ''lunch'' None],
          categories = [], files = map_of [], console = [] \<rparr>) = None
   \<and> fst (delete_expense Written 0
        \<lparr> data_file = ''expenses.json'', categories_file = ''categories.json'',
          expenses = [Expense_init ''2024-05-10'' (250::real) ''Food'' ''lunch'' None],
          categories = [], files = map_of [], console = [] \<rparr>)
     \<noteq> Some (Expense_init ''2024-05-10'' 250 ''Food'' ''lunch'' None)"
  by (simp add: delete_expense_def Let_def)

text \<open>
  Claim C2, amended: for every ledger state and every valid index, \<^verbatim>\<open>delete_expense\<close>
  removes exactly the entity at that position (the entities before and after it stay, in
  their order), makes the ledger one shorter, names the removed entity in the message it
  prints and returns None to the caller. When the write goes through, the expense file
  holds the new sequence. When it fails, the removal stays in memory and the error of
  the save is printed before the message of the deletion: the file is as it was when it
  could not be opened, and holds unparseable text when the writing broke off.
\<close>

theorem delete_expense_valid_index:
  assumes "0 \<le> index" and "index < int (length (expenses s))"
  shows "expenses (snd (delete_expense w index s))
           = take (nat index) (expenses s) @ drop (Suc (nat index)) (expenses s)
       \<and> length (expenses (snd (delete_expense w index s))) + 1 = length (expenses s)
       \<and> fst (delete_expense w index s) = None
       \<and> (w = Written \<longrightarrow>
            files (snd (delete_expense w index s))
              = (files s)(data_file s \<mapsto>
                  Document (JArr (map (\<lambda>e. JObj (to_dict e))
                                      (expenses (snd (delete_expense w index s))))))
          \<and> console (snd (delete_expense w index s))
              = console s @ [SavedExpenses (length (expenses s) - 1) (data_file s),
                             ExpenseDeleted (expenses s ! nat index)])
       \<and> (w = OpenFailed \<longrightarrow>
            files (snd (delete_expense w index s)) = files s
          \<and> console (snd (delete_expense w index s))
              = console s @ [ErrorSavingExpenses, ExpenseDeleted (expenses s ! nat index)])
       \<and> (w = DumpFailed \<longrightarrow>
            files (snd (delete_expense w index s)) = (files s)(data_file s \<mapsto> Unparseable)
          \<and> console (snd (delete_expense w index s))
              = console s @ [ErrorSavingExpenses, ExpenseDeleted (expenses s ! nat index)])"
  using assms
  by (cases w) (auto simp: delete_expense_def save_expenses_def Let_def)

theorem delete_expense_valid_index_witness:
  "(0::int) \<le> 1
   \<and> 1 < int (length (expenses
        \<lparr> data_file = ''expenses.json'', categories_file = ''categories.json'',
          expenses = [Expense_init ''2024-05-10'' (250::real) ''Food'' ''lunch'' None,
                      Expense_init ''2024-05-10'' 40 ''Travel'' ''bus'' None],
          categories = [], files = map_of [(''expenses.json'', Document (JArr []))],
          console = [] \<rparr>))
   \<and> expenses (snd (delete_expense Written 1
        \<lparr> data_file = ''expenses.json'', categories_file = ''categories.json'',
          expenses = [Expense_init ''2024-05-10'' (250::real) ''Food'' ''lunch'' None,
                      Expense_init ''2024-05-10'' 40 ''Travel'' ''bus'' None],
          categories = [], files = map_of [(''expenses.json'', Document (JArr []))],
          console = [] \<rparr>))
     = [Expense_init ''2024-05-10'' 250 ''Food'' ''lunch'' None]
   \<and> files (snd (delete_expense Written 1
        \<lparr> data_file = ''expenses.json'', categories_file = ''categories.json'',
          expenses = [Expense_init ''2024-05-10'' (250::real) ''Food'' ''lunch'' None,
                      Expense_init ''2024-05-10'' 40 ''Travel'' ''bus'' None],
          categories = [], files = map_of [(''expenses.json'', Document (JArr []))],
          console = [] \<rparr>)) ''expenses.json''
     = Some (Document (JArr [JObj (to_dict (Expense_init ''2024-05-10'' 250 ''Food'' ''lunch'' None))]))
   \<and> console (snd (delete_expense Written 1
        \<lparr> data_file = ''expenses.json'', categories_file = ''categories.json'',
          expenses = [Expense_init ''2024-05-10'' (250::real) ''Food'' ''lunch'' None,
                      Expense_init ''2024-05-10'' 40 ''Travel'' ''bus'' None],
          categories = [], files = map_of [(''expenses.json'', Document (JArr []))],
          console = [] \<rparr>))
     = [SavedExpenses 1 ''expenses.json'',
        ExpenseDeleted (Expense_init ''2024-05-10'' 40 ''Travel'' ''bus'' None)]
   \<and> expenses (snd (delete_expense OpenFailed 1
        \<lparr> data_file = ''expenses.json'', categories_file = ''categories.json'',
          expenses = [Expense_init ''2024-05-10'' (250::real) ''Food'' ''lunch'' None,
                      Expense_init ''2024-05-10'' 40 ''Travel'' ''bus'' None],
          categories = [], files = map_of [(''expenses.json'', Document (JArr []))],
          console = [] \<rparr>))
     = [Expense_init ''2024-05-10'' 250 ''Food'' ''lunch'' None]
   \<and> files (snd (delete_expense OpenFailed 1
        \<lparr> data_file = ''expenses.json'', categories_file = ''categories.json'',
          expenses = [Expense_init ''2024-05-10'' (250::real) ''Food'' ''lunch'' None,
                      Expense_init ''2024-05-10'' 40 ''Travel'' ''bus'' None],
          categories = [], files = map_of [(''expenses.json'', Document (JArr []))],
          console = [] \<rparr>)) ''expenses.json''
     = Some (Document (JArr []))
   \<and> console (snd (delete_expense OpenFailed 1
        \<lparr> data_file = ''expenses.json'', categories_file = ''categories.json'',
          expenses = [Expense_init ''2024-05-10'' (250::real) ''Food'' ''lunch'' None,
                      Expense_init ''2024-05-10'' 40 ''Travel'' ''bus'' None],
          categories = [], files = map_of [(''expenses.json'', Document (JArr []))],
          console = [] \<rparr>))
     = [ErrorSavingExpenses,
        ExpenseDeleted (Expense_init ''2024-05-10'' 40 ''Travel'' ''bus'' None)]
   \<and> fst (delete_expense OpenFailed 1
        \<lparr> data_file = ''expenses.json'', categories_file = ''categories.json'',
          expenses = [Expense_init ''2024-05-10'' (250::real) ''Food'' ''lunch'' None,
                      Expense_init ''2024-05-10'' 40 ''Travel'' ''bus'' None],
          categories = [], files = map_of [(''expenses.json'', Document (JArr []))],
          console = [] \<rparr>) = None"
  using delete_expense_valid_index [of 1
       "\<lparr> data_file = ''expenses.json'', categories_file = ''categories.json'',
          expenses = [Expense_init ''2024-05-10'' (250::real) ''Food'' ''lunch'' None,
                      Expense_init ''2024-05-10'' 40 ''Travel'' ''bus'' None],
          categories = [], files = map_of [(''expenses.json'', Document (JArr []))],
          console = [] \<rparr>" Written]
     delete_expense_valid_index [of 1
       "\<lparr> data_file = ''expenses.json'', categories_file = ''categories.json'',
          expenses = [Expense_init ''2024-05-10'' (250::real) ''Food'' ''lunch'' None,
                      Expense_init ''2024-05-10'' 40 ''Travel'' ''bus'' None],
          categories = [], files = map_of [(''expenses.json'', Document (JArr []))],
          console = [] \<rparr>" OpenFailed]
  by simp

text \<open>
  Claim C3: for every ledger state and every index below 0 or not below the number of
  expenses, \<^verbatim>\<open>delete_expense\<close> prints the message for an invalid index and changes nothing
  else: the expenses, their order and the files are as before. No write is attempted, so
  the outcome \<open>w\<close> plays no part.
\<close>

theorem delete_expense_out_of_range:
  assumes "index < 0 \<or> int (length (expenses s)) \<le> index"
  shows "delete_expense w index s
           = (None, s\<lparr> console := console s @ [InvalidExpenseIndex] \<rparr>)
       \<and> expenses (snd (delete_expense w index s)) = expenses s
       \<and> files (snd (delete_expense w index s)) = files s"
  using assms by (auto simp: delete_expense_def)

theorem delete_expense_out_of_range_witness:
  "((-1::int) < 0 \<or> int (length (expenses
        \<lparr> data_file = ''expenses.json'', categories_file = ''categories.json'',
          expenses = [Expense_init ''2024-05-10'' (250::real) ''Food'' ''lunch'' None],
          categories = [], files = map_of [], console = [] \<rparr>)) \<le> -1)
   \<and> delete_expense Written (-1)
        \<lparr> data_file = ''expenses.json'', categories_file = ''categories.json'',
          expenses = [Expense_init ''2024-05-10'' (250::real) ''Food'' ''lunch'' None],
          categories = [], files = map_of [], console = [] \<rparr>
     = (None,
        \<lparr> data_file = ''expenses.json'', categories_file = ''categories.json'',
          expenses = [Expense_init ''2024-05-10'' (250::real) ''Food'' ''lunch'' None],
          categories = [], files = map_of [], console = [InvalidExpenseIndex] \<rparr>)"
  using delete_expense_out_of_range [of "-1"
       "\<lparr> data_file = ''expenses.json'', categories_file = ''categories.json'',
          expenses = [Expense_init ''2024-05-10'' (250::real) ''Food'' ''lunch'' None],
          categories = [], files = map_of [], console = [] \<rparr>" Written]
  by simp

subsection \<open>Total spending\<close>


subsection \<open>Serialization round trip\<close>

text \<open>
  Claim C4 says that \<^verbatim>\<open>to_dict\<close> followed by the matching \<^verbatim>\<open>from_dict\<close> gives back every
  entity with identical fields. An expense whose date is the empty string (as after
  \<^verbatim>\<open>set_date("")\<close>) does not come back: the constructor that \<^verbatim>\<open>from_dict\<close> calls reads
  the empty date as missing and puts the current date in its place.
\<close>

theorem roundtrip_empty_date_changes:
  "load_item ''2024-06-01''
      (JObj (to_dict (set_date (Expense_init ''2024-05-10'' (250::real) ''Food'' ''lunch'' None) '''')))
     = Inr (Expense_init ''2024-06-01'' 250 ''Food'' ''lunch'' None)
   \<and> get_date (set_date (Expense_init ''2024-05-10'' (250::real) ''Food'' ''lunch'' None) '''') = ''''
   \<and> get_date (Expense_init ''2024-06-01'' (250::real) ''Food'' ''lunch'' None) = ''2024-06-01''"
  by (simp add: load_item_def to_dict_def Expense_to_dict_def set_date_def Expense_init_def
      Expense_from_dict_def then_do_def dict_get_def)

text \<open>
  Claim C4, amended: for every \<^verbatim>\<open>Expense\<close> and \<^verbatim>\<open>RecurringExpense\<close> whose date is not
  the empty string, and for every \<^verbatim>\<open>Category\<close>, \<^verbatim>\<open>to_dict\<close> followed by the
  \<^verbatim>\<open>from_dict\<close> that the stored type selects gives back an entity equal to the original
  in every field, the class and the frequency included; the stored type is "regular"
  for an \<^verbatim>\<open>Expense\<close> and "recurring" for a \<^verbatim>\<open>RecurringExpense\<close>.
\<close>

theorem to_dict_from_dict_roundtrip:
  fixes e :: "'f expense" and c :: "'f category"
  assumes "get_date e \<noteq> []"
  shows "load_item today (JObj (to_dict e)) = Inr e
       \<and> py_get (JObj (to_dict e)) ''type''
           = Inr (JStr (case variant e of Regular \<Rightarrow> ''regular'' | Recurring f \<Rightarrow> ''recurring''))
       \<and> Category_from_dict (JObj (Category_to_dict c)) = Inr c"
proof -
  have 1: "load_item today (JObj (to_dict e)) = Inr e"
  proof (cases "variant e")
    case Regular
    with assms show ?thesis
      by (cases e)
         (simp add: load_item_def to_dict_def Expense_to_dict_def Expense_init_def
            Expense_from_dict_def then_do_def dict_get_def)
  next
    case (Recurring f)
    with assms show ?thesis
      by (cases e)
         (simp add: load_item_def to_dict_def Expense_to_dict_def RecurringExpense_to_dict_def
            Expense_init_def RecurringExpense_init_def RecurringExpense_from_dict_def
            then_do_def dict_get_def Let_def)
  qed
  have 2: "py_get (JObj (to_dict e)) ''type''
           = Inr (JStr (case variant e of Regular \<Rightarrow> ''regular'' | Recurring f \<Rightarrow> ''recurring''))"
    by (cases "variant e")
       (simp_all add: to_dict_def Expense_to_dict_def RecurringExpense_to_dict_def
          dict_get_def Let_def)
  have 3: "Category_from_dict (JObj (Category_to_dict c)) = Inr c"
    by (cases c)
       (simp add: Category_from_dict_def Category_to_dict_def Category_init_def then_do_def)
  from 1 2 3 show ?thesis by blast
qed

theorem to_dict_from_dict_roundtrip_witness:
  "get_date (RecurringExpense_init ''2024-06-01'' (99::real) ''Bills'' ''rent''
       (Some ''2024-05-01'') ''biweekly'') \<noteq> []
   \<and> load_item ''2024-07-07''
        (JObj [(''amount'', JNum (99::real)), (''category'', JStr ''Bills''),
               (''description'', JStr ''rent''), (''date'', JStr ''2024-05-01''),
               (''type'', JStr ''recurring''), (''frequency'', JStr ''biweekly'')])
       = Inr (RecurringExpense_init ''2024-06-01'' 99 ''Bills'' ''rent'' (Some ''2024-05-01'')
                ''biweekly'')
   \<and> Category_from_dict (JObj [(''name'', JStr ''Food''), (''budget_limit'', JNum (5000::real))])
       = Inr (Category_init ''Food'' 5000)"
  using to_dict_from_dict_roundtrip
    [of "RecurringExpense_init ''2024-06-01'' (99::real) ''Bills'' ''rent'' (Some ''2024-05-01'')
           ''biweekly''"
        "''2024-07-07''" "Category_init ''Food'' 5000"]
  by (simp add: to_dict_def Expense_to_dict_def RecurringExpense_to_dict_def
        Expense_init_def RecurringExpense_init_def Category_to_dict_def Category_init_def Let_def)

subsection \<open>Adding a category\<close>

text \<open>
  Claim C5: when the lower-cased name equals the lower-cased name of a stored category,
  \<^verbatim>\<open>add_category\<close> prints that the category exists and changes neither the categories
  nor the files. Hence, when no stored category has the name in any case, adding it and
  then adding a name that differs from it only by case leaves exactly one stored category
  with that name, the first one. Both hold for every function \<open>lower\<close>, so for
  \<^verbatim>\<open>str.lower\<close> on every name, and whatever becomes of the writes.
\<close>

theorem add_category_duplicate:
  "((\<exists>cat \<in> set (categories s). lower (get_name cat) = lower name) \<longrightarrow>
       add_category lower w name budget_limit s
         = s\<lparr> console := console s @ [CategoryExists name] \<rparr>
     \<and> categories (add_category lower w name budget_limit s) = categories s
     \<and> files (add_category lower w name budget_limit s) = files s)
   \<and> ((\<forall>cat \<in> set (categories s). lower (get_name cat) \<noteq> lower name)
        \<and> lower name' = lower name \<longrightarrow>
       categories (add_category lower w' name' budget_limit'
                     (add_category lower w name budget_limit s))
         = categories s @ [Category_init name budget_limit]
     \<and> filter (\<lambda>cat. lower (get_name cat) = lower name)
          (categories (add_category lower w' name' budget_limit'
                         (add_category lower w name budget_limit s)))
         = [Category_init name budget_limit])"
proof (intro conjI impI)
  assume "\<exists>cat \<in> set (categories s). lower (get_name cat) = lower name"
  then have d: "list_ex (\<lambda>cat. lower (get_name cat) = lower name) (categories s)"
    by (simp add: list_ex_iff)
  then show "add_category lower w name budget_limit s
               = s\<lparr> console := console s @ [CategoryExists name] \<rparr>"
    by (simp add: add_category_def)
  from d show "categories (add_category lower w name budget_limit s) = categories s"
    by (simp add: add_category_def)
  from d show "files (add_category lower w name budget_limit s) = files s"
    by (simp add: add_category_def)
next
  assume a: "(\<forall>cat \<in> set (categories s). lower (get_name cat) \<noteq> lower name)
               \<and> lower name' = lower name"
  then have n: "\<not> list_ex (\<lambda>cat. lower (get_name cat) = lower name) (categories s)"
    by (simp add: list_ex_iff)
  then have c1: "categories (add_category lower w name budget_limit s)
                   = categories s @ [Category_init name budget_limit]"
    by (cases w) (simp_all add: add_category_def save_categories_def Let_def)
  have "list_ex (\<lambda>cat. lower (get_name cat) = lower name')
          (categories (add_category lower w name budget_limit s))"
    using a by (simp add: c1 list_ex_iff Category_init_def)
  then have c2: "categories (add_category lower w' name' budget_limit'
                               (add_category lower w name budget_limit s))
                   = categories (add_category lower w name budget_limit s)"
    by (simp add: add_category_def)
  from c1 c2 show "categories (add_category lower w' name' budget_limit'
                                 (add_category lower w name budget_limit s))
         = categories s @ [Category_init name budget_limit]"
    by simp
  have "filter (\<lambda>cat. lower (get_name cat) = lower name) (categories s) = []"
    using a by (simp add: filter_empty_conv)
  with c1 c2 show "filter (\<lambda>cat. lower (get_name cat) = lower name)
          (categories (add_category lower w' name' budget_limit'
                         (add_category lower w name budget_limit s)))
         = [Category_init name budget_limit]"
    by (simp add: Category_init_def)
qed

text \<open>The instance below takes for \<open>lower\<close> the table of \<^verbatim>\<open>str.lower\<close> on the three names
  it is applied to.\<close>

theorem add_category_duplicate_witness:
  "(\<exists>cat \<in> set (categories \<lparr> data_file = ''expenses.json'', categories_file = ''categories.json'',
           expenses = [], categories = [Category_init ''Food'' (5000::real)],
           files = map_of [], console = [] \<rparr>).
       (\<lambda>n. case map_of [(''Food'', ''food''), (''FOOD'', ''food''), (''Travel'', ''travel'')] n of
             Some l \<Rightarrow> l | None \<Rightarrow> n) (get_name cat)
         = (\<lambda>n. case map_of [(''Food'', ''food''), (''FOOD'', ''food''), (''Travel'', ''travel'')] n of
             Some l \<Rightarrow> l | None \<Rightarrow> n) ''FOOD'')
   \<and> add_category (\<lambda>n. case map_of [(''Food'', ''food''), (''FOOD'', ''food''), (''Travel'', ''travel'')] n of
             Some l \<Rightarrow> l | None \<Rightarrow> n) OpenFailed ''FOOD'' 10
         \<lparr> data_file = ''expenses.json'', categories_file = ''categories.json'',
           expenses = [], categories = [Category_init ''Food'' (5000::real)],
           files = map_of [], console = [] \<rparr>
       = \<lparr> data_file = ''expenses.json'', categories_file = ''categories.json'',
           expenses = [], categories = [Category_init ''Food'' 5000],
           files = map_of [], console = [CategoryExists ''FOOD''] \<rparr>
   \<and> categories (add_category (\<lambda>n. case map_of [(''Food'', ''food''), (''FOOD'', ''food''), (''Travel'', ''travel'')] n of
             Some l \<Rightarrow> l | None \<Rightarrow> n)
                   Written ''FOOD'' 10
         (add_category (\<lambda>n. case map_of [(''Food'', ''food''), (''FOOD'', ''food''), (''Travel'', ''travel'')] n of
             Some l \<Rightarrow> l | None \<Rightarrow> n)
                   Written ''Food'' 5000
         \<lparr> data_file = ''expenses.json'', categories_file = ''categories.json'',
           expenses = [], categories = [Category_init ''Travel'' (3000::real)],
           files = map_of [], console = [] \<rparr>))
       = [Category_init ''Travel'' 3000, Category_init ''Food'' 5000]"
  using add_category_duplicate
          [of "\<lparr> data_file = ''expenses.json'', categories_file = ''categories.json'',
           expenses = [], categories = [Category_init ''Food'' (5000::real)],
           files = map_of [], console = [] \<rparr>"
           "\<lambda>n. case map_of [(''Food'', ''food''), (''FOOD'', ''food''), (''Travel'', ''travel'')] n of
             Some l \<Rightarrow> l | None \<Rightarrow> n" "''FOOD''" OpenFailed 10]
        add_category_duplicate
          [of "\<lparr> data_file = ''expenses.json'', categories_file = ''categories.json'',
           expenses = [], categories = [Category_init ''Travel'' (3000::real)],
           files = map_of [], console = [] \<rparr>"
           "\<lambda>n. case map_of [(''Food'', ''food''), (''FOOD'', ''food''), (''Travel'', ''travel'')] n of
             Some l \<Rightarrow> l | None \<Rightarrow> n" "''Food''" Written 5000
           "''FOOD''" Written 10]
  by (simp add: Category_init_def)

subsection \<open>Summaries by category\<close>















subsection \<open>The monthly report\<close>




subsection \<open>The category report\<close>











subsection \<open>Loading a corrupt category store\<close>

lemma load_expenses_other_file:
  "p \<noteq> data_file s \<Longrightarrow> files (load_expenses today s) p = files s p"
  by (simp add: load_expenses_def split: sum.splits)

lemma load_expenses_categories_file:
  "categories_file (load_expenses today s) = categories_file s"
  by (simp add: load_expenses_def split: sum.splits)

lemma load_expenses_unparseable:
  "files s (data_file s) = Some Unparseable \<Longrightarrow>
   files (load_expenses today s) (data_file s) = Some (Document (JArr []))"
  by (simp add: load_expenses_def json_load_def then_do_def)

lemma load_categories_unparseable:
  "files s (categories_file s) = Some Unparseable \<Longrightarrow>
   load_categories s = s\<lparr> categories := [], console := console s @ [ErrorLoadingCategories] \<rparr>"
  by (simp add: load_categories_def json_load_def then_do_def)

lemma load_categories_empty_document:
  "files s (categories_file s) = Some (Document (JArr [])) \<Longrightarrow>
   categories (load_categories s) = [] \<and> files (load_categories s) = files s"
  by (simp add: load_categories_def json_load_def then_do_def)

lemma initialize_files_existing:
  "files s (categories_file s) = Some x \<Longrightarrow>
   files (initialize_files py_float s) (categories_file s) = Some x"
  by (auto simp: initialize_files_def Let_def)

lemma initialize_files_names:
  "data_file (initialize_files py_float s) = data_file s"
  "categories_file (initialize_files py_float s) = categories_file s"
  by (simp_all add: initialize_files_def Let_def)

text \<open>
  Claim C9: when the categories file exists and holds unparseable data,
  \<^verbatim>\<open>_load_categories\<close> sets the categories to the empty list and writes no file, and
  \<^verbatim>\<open>_initialize_files\<close> leaves the file as it is (it writes the default categories only
  to a missing file). A manager constructed on such a file system starts with no
  category, and the categories file still holds the unparseable data; only when the
  expenses and the categories are given the same file does the loading of the expenses
  reset that file to the empty list.
\<close>

theorem corrupt_categories_not_reseeded:
  assumes "files s (categories_file s) = Some Unparseable"
      and "fs cf = Some Unparseable"
  shows "load_categories s = s\<lparr> categories := [], console := console s @ [ErrorLoadingCategories] \<rparr>
       \<and> categories (load_categories s) = []
       \<and> files (load_categories s) = files s
       \<and> files (initialize_files py_float s) (categories_file s) = Some Unparseable
       \<and> categories (ExpenseManager_init py_float today df cf fs) = []
       \<and> files (ExpenseManager_init py_float today df cf fs) cf
           = (if df = cf then Some (Document (JArr [])) else Some Unparseable)"
proof -
  have 1: "load_categories s = s\<lparr> categories := [], console := console s @ [ErrorLoadingCategories] \<rparr>"
    using assms(1) by (rule load_categories_unparseable)
  have 2: "files (initialize_files py_float s) (categories_file s) = Some Unparseable"
    using assms(1) by (rule initialize_files_existing)
  let ?s0 = "\<lparr> data_file = df, categories_file = cf,
         expenses = [], categories = [], files = fs, console = [] \<rparr>"
  let ?s1 = "initialize_files py_float ?s0"
  let ?s2 = "load_expenses today ?s1"
  have init: "ExpenseManager_init py_float today df cf fs = load_categories ?s2"
    by (simp add: ExpenseManager_init_def load_data_def)
  have f1: "files ?s1 cf = Some Unparseable"
    using initialize_files_existing [of ?s0 Unparseable py_float] assms(2) by simp
  have n1: "data_file ?s1 = df" "categories_file ?s1 = cf"
    by (simp_all add: initialize_files_names)
  have n2: "categories_file ?s2 = cf"
    by (simp add: load_expenses_categories_file n1)
  have 3: "categories (load_categories ?s2) = []
         \<and> files (load_categories ?s2) cf
             = (if df = cf then Some (Document (JArr [])) else Some Unparseable)"
  proof (cases "df = cf")
    case True
    with f1 n1 have "files ?s2 cf = Some (Document (JArr []))"
      using load_expenses_unparseable [of ?s1 today] by simp
    with n2 True show ?thesis
      using load_categories_empty_document [of ?s2] by simp
  next
    case False
    with f1 n1 have "files ?s2 cf = Some Unparseable"
      using load_expenses_other_file [of cf ?s1 today] by simp
    with n2 False show ?thesis
      using load_categories_unparseable [of ?s2] by simp
  qed
  from 1 2 3 init show ?thesis by simp
qed

theorem corrupt_categories_not_reseeded_witness:
  "files \<lparr> data_file = ''expenses.json'', categories_file = ''categories.json'',
           expenses = [], categories = [Category_init ''Food'' (5000::real)],
           files = map_of [(''categories.json'', Unparseable)], console = [] \<rparr>
      (categories_file \<lparr> data_file = ''expenses.json'', categories_file = ''categories.json'',
           expenses = [], categories = [Category_init ''Food'' (5000::real)],
           files = map_of [(''categories.json'', Unparseable)], console = [] \<rparr>) = Some Unparseable
   \<and> map_of [(''categories.json'', Unparseable :: real file_content)] ''categories.json''
       = Some Unparseable
   \<and> categories (load_categories \<lparr> data_file = ''expenses.json'', categories_file = ''categories.json'',
           expenses = [], categories = [Category_init ''Food'' (5000::real)],
           files = map_of [(''categories.json'', Unparseable)], console = [] \<rparr>) = []
   \<and> categories (ExpenseManager_init real_of_int ''2024-06-01'' ''expenses.json'' ''categories.json''
           (map_of [(''categories.json'', Unparseable)])) = []
   \<and> files (ExpenseManager_init real_of_int ''2024-06-01'' ''expenses.json'' ''categories.json''
           (map_of [(''categories.json'', Unparseable)])) ''categories.json'' = Some Unparseable"
  using corrupt_categories_not_reseeded
        [of "\<lparr> data_file = ''expenses.json'', categories_file = ''categories.json'',
           expenses = [], categories = [Category_init ''Food'' (5000::real)],
           files = map_of [(''categories.json'', Unparseable)], console = [] \<rparr>"
         "map_of [(''categories.json'', Unparseable)]" "''categories.json''"
         real_of_int "''2024-06-01''" "''expenses.json''"]
  by simp

end
